theory Spec2Isabelle
  imports Complex_Main
begin

section \<open>The benchmark scripts of pyhyeon\<close>

text \<open>
  The repository's three scripts (\<^verbatim>\<open>benchmark_runner.py\<close>, \<^verbatim>\<open>compare_jit.py\<close>,
  \<^verbatim>\<open>detailed_benchmark.py\<close>) time the external program \<^verbatim>\<open>pyhc.exe run <file>\<close> and print a
  report. The embedding keeps what the scripts compute and print:
  \<^item> Python floats are idealised as \<open>real\<close> (no rounding, no NaN, no infinities);
  \<^item> the external program and the clock are an oracle: the \<open>k\<close>-th call of
    \<^verbatim>\<open>subprocess.run\<close> on a test file yields a record with the two clock readings taken
    around it, the exit code and the captured standard error;
  \<^item> the state threaded through the scripts is the number of calls made so far and the
    lines printed so far;
  \<^item> an uncaught Python exception is a value of \<open>py_error\<close>.
\<close>

subsection \<open>Values, output and the environment\<close>

datatype py_error = ZeroDivisionError | TypeError

text \<open>
  A printed line is the list of the pieces of its f-string: literal text, an integer
  written with \<^verbatim>\<open>{n}\<close>, and a float written with \<^verbatim>\<open>{x:.pf}\<close> (\<open>F p x\<close>). The digits of
  a number are not rendered: the pieces record which value is printed and with which
  precision.
\<close>

datatype fragment = S string | I int | F nat real

type_synonym line = "fragment list"

record invocation =
  t_start :: real
  t_end :: real
  returncode :: int
  stderr :: string

type_synonym env = "string \<Rightarrow> nat \<Rightarrow> invocation"

record world =
  calls :: nat
  out :: "line list"

definition py_print :: "line \<Rightarrow> world \<Rightarrow> world" where
  "py_print l w = w\<lparr>out := out w @ [l]\<rparr>"

text \<open>\<^verbatim>\<open>start = time.time(); result = subprocess.run([...]); end = time.time()\<close>\<close>

definition subprocess_run :: "env \<Rightarrow> string \<Rightarrow> world \<Rightarrow> invocation \<times> world" where
  "subprocess_run e test_file w = (e test_file (calls w), w\<lparr>calls := Suc (calls w)\<rparr>)"

text \<open>\<^verbatim>\<open>elapsed = (end - start) * 1000\<close>\<close>

definition elapsed_ms :: "invocation \<Rightarrow> real" where
  "elapsed_ms r = (t_end r - t_start r) * 1000"

text \<open>\<^verbatim>\<open>range(n)\<close>: empty when \<open>n \<le> 0\<close>.\<close>

definition py_range :: "int \<Rightarrow> nat list" where
  "py_range n = [0..<nat n]"

text \<open>Float division \<^verbatim>\<open>a / b\<close>: raises \<^verbatim>\<open>ZeroDivisionError\<close> when \<open>b\<close> is zero.\<close>

definition truediv :: "real \<Rightarrow> real \<Rightarrow> py_error + real" where
  "truediv a b = (if b = 0 then Inl ZeroDivisionError else Inr (a / b))"

text \<open>\<^verbatim>\<open>{v:.pf}\<close>: formatting \<^verbatim>\<open>None\<close> with a float format raises \<^verbatim>\<open>TypeError\<close>.\<close>

definition fmt :: "nat \<Rightarrow> real option \<Rightarrow> py_error + fragment" where
  "fmt p v = (case v of None \<Rightarrow> Inl TypeError | Some x \<Rightarrow> Inr (F p x))"

subsection \<open>benchmark\_runner.py\<close>

text \<open>
  The loop of \<^verbatim>\<open>run_benchmark\<close> (lines 9-25), over the values of \<^verbatim>\<open>range(iterations)\<close>:
  a run with exit code 0 appends its elapsed time to \<^verbatim>\<open>times\<close> and prints it; any other
  run prints \<^verbatim>\<open>ERROR\<close> and the captured standard error, and the loop goes on.
\<close>

fun run_benchmark_loop :: "env \<Rightarrow> string \<Rightarrow> nat list \<Rightarrow> real list \<times> world \<Rightarrow> real list \<times> world" where
  "run_benchmark_loop e test_file [] (times_l, w) = (times_l, w)"
| "run_benchmark_loop e test_file (i # rest) (times_l, w) =
     (let (result, w1) = subprocess_run e test_file w in
      if returncode result = 0 then
        (let elapsed = elapsed_ms result in
         run_benchmark_loop e test_file rest
           (times_l @ [elapsed],
            py_print [S ''  Run '', I (int i + 1), S '': '', F 2 elapsed, S ''ms''] w1))
      else
        run_benchmark_loop e test_file rest
          (times_l,
           py_print [S (stderr result)]
             (py_print [S ''  Run '', I (int i + 1), S '': ERROR''] w1)))"

text \<open>
  \<^verbatim>\<open>run_benchmark\<close> (lines 5-32). \<^verbatim>\<open>if times:\<close> is the non-empty case; \<^verbatim>\<open>min(times)\<close> and
  \<^verbatim>\<open>max(times)\<close> start from the first element and go through the rest.
\<close>

definition run_benchmark ::
  "env \<Rightarrow> string \<Rightarrow> int \<Rightarrow> world \<Rightarrow> (real option \<times> real option \<times> real option) \<times> world" where
  "run_benchmark e test_file iterations w =
     (let (times_l, w1) = run_benchmark_loop e test_file (py_range iterations) ([], w) in
      case times_l of
        [] \<Rightarrow> ((None, None, None), w1)
      | t # ts \<Rightarrow>
          (let avg = sum_list times_l / real (length times_l);
               min_time = fold min ts t;
               max_time = fold max ts t
           in ((Some avg, Some min_time, Some max_time), w1)))"

text \<open>
  Lines 44-48 (and 57-61): \<^verbatim>\<open>if avg:\<close> is false for \<^verbatim>\<open>None\<close> and for \<^verbatim>\<open>0.0\<close>; otherwise the
  three result lines are printed.
\<close>

definition show_results ::
  "real option \<times> real option \<times> real option \<Rightarrow> world \<Rightarrow> py_error option \<times> world" where
  "show_results r w =
     (case r of (avg, min_t, max_t) \<Rightarrow>
        (case avg of
           None \<Rightarrow> (None, w)
         | Some a \<Rightarrow>
             if a = 0 then (None, w)
             else
               (let w1 = py_print [S ''\<newline>Results:''] w;
                    w2 = py_print [S ''  Average: '', F 2 a, S ''ms''] w1
                in case fmt 2 min_t of
                     Inl x \<Rightarrow> (Some x, w2)
                   | Inr mn \<Rightarrow>
                       (let w3 = py_print [S ''  Min:     '', mn, S ''ms''] w2
                        in case fmt 2 max_t of
                             Inl x \<Rightarrow> (Some x, w3)
                           | Inr mx \<Rightarrow> (None, py_print [S ''  Max:     '', mx, S ''ms''] w3)))))"


subsection \<open>compare\_jit.py\<close>

text \<open>
  The loop of \<^verbatim>\<open>run_test\<close> (lines 22-38). A run with a non-zero exit code prints the
  first 100 characters of the standard error and returns \<^verbatim>\<open>None\<close> from the function at
  once: \<open>Inl v\<close> is "returned \<open>v\<close> from inside the loop", \<open>Inr times\<close> is "the loop ran
  to its end".
\<close>

fun compare_jit_loop ::
  "env \<Rightarrow> string \<Rightarrow> nat list \<Rightarrow> real list \<times> world \<Rightarrow> (real option + real list) \<times> world" where
  "compare_jit_loop e test_file [] (times_l, w) = (Inr times_l, w)"
| "compare_jit_loop e test_file (i # rest) (times_l, w) =
     (let (result, w1) = subprocess_run e test_file w in
      if returncode result = 0 then
        (let elapsed = elapsed_ms result in
         compare_jit_loop e test_file rest
           (times_l @ [elapsed],
            py_print [S ''  Run '', I (int i + 1), S '': '', F 2 elapsed, S ''ms''] w1))
      else
        (Inl None, py_print [S ''  ERROR: '', S (take 100 (stderr result))] w1))"

text \<open>\<^verbatim>\<open>run_test\<close> of compare\_jit.py (lines 16-46).\<close>

definition compare_jit_run_test :: "env \<Rightarrow> string \<Rightarrow> string \<Rightarrow> world \<Rightarrow> real option \<times> world" where
  "compare_jit_run_test e test_file description w =
     (let w1 = py_print [S (''\<newline>'' @ replicate 60 CHR ''='')] w;
          w2 = py_print [S description] w1;
          w3 = py_print [S (replicate 60 CHR ''='')] w2;
          (r, w4) = compare_jit_loop e test_file (py_range 5) ([], w3)
      in case r of
           Inl v \<Rightarrow> (v, w4)
         | Inr times_l \<Rightarrow>
             (case times_l of
                [] \<Rightarrow> (None, w4)
              | t # ts \<Rightarrow>
                  (let avg = sum_list times_l / real (length times_l);
                       w5 = py_print [S ''\<newline>  Average: '', F 2 avg, S ''ms''] w4;
                       w6 = py_print [S ''  Min:     '', F 2 (fold min ts t), S ''ms''] w5;
                       w7 = py_print [S ''  Max:     '', F 2 (fold max ts t), S ''ms''] w6
                   in (Some avg, w7))))"

subsection \<open>detailed\_benchmark.py\<close>

text \<open>The loop of \<^verbatim>\<open>run_test\<close> (lines 16-31): as above, without the progress lines.\<close>

fun detailed_loop ::
  "env \<Rightarrow> string \<Rightarrow> nat list \<Rightarrow> real list \<times> world \<Rightarrow> (real option + real list) \<times> world" where
  "detailed_loop e test_file [] (times_l, w) = (Inr times_l, w)"
| "detailed_loop e test_file (i # rest) (times_l, w) =
     (let (result, w1) = subprocess_run e test_file w in
      if returncode result = 0 then
        (let elapsed = elapsed_ms result in
         detailed_loop e test_file rest (times_l @ [elapsed], w1))
      else
        (Inl None, py_print [S ''ERROR: '', S (take 100 (stderr result))] w1))"

text \<open>
  \<^verbatim>\<open>run_test\<close> of detailed\_benchmark.py (lines 14-34). The division of line 33 has no
  \<^verbatim>\<open>if times:\<close> in front of it.
\<close>

definition detailed_run_test ::
  "env \<Rightarrow> string \<Rightarrow> string \<Rightarrow> world \<Rightarrow> (py_error + real option) \<times> world" where
  "detailed_run_test e test_file name w =
     (let (r, w1) = detailed_loop e test_file (py_range 5) ([], w)
      in case r of
           Inl v \<Rightarrow> (Inr v, w1)
         | Inr times_l \<Rightarrow>
             (case truediv (sum_list times_l) (real (length times_l)) of
                Inl x \<Rightarrow> (Inl x, w1)
              | Inr avg \<Rightarrow> (Inr (Some avg), w1)))"

text \<open>The list \<^verbatim>\<open>tests\<close> of lines 45-48: file, name, iteration count.\<close>

type_synonym test_case = "string \<times> string \<times> int"

definition tests :: "test_case list" where
  "tests =
     [(''tests/programs/benchmark_arithmetic.pyh'', ''10K iterations'', 10000),
      (''tests/programs/benchmark_long.pyh'', ''100K iterations'', 100000)]"

text \<open>An entry of \<^verbatim>\<open>results\<close> (line 56): name, iteration count, average.\<close>

type_synonym result_entry = "string \<times> int \<times> real"

text \<open>The two bytes of the Greek letter mu of \<^verbatim>\<open>"\<mu>s"\<close> in UTF-8.\<close>

definition mu :: string where
  "mu = [CHR 0xCE, CHR 0xBC]"

text \<open>
  \<^verbatim>\<open>avg / iterations * 1000\<close> (line 60) and \<^verbatim>\<open>time1 / iters1 * 1000\<close> (lines 79, 80):
  microseconds per iteration.
\<close>

definition per_iter :: "real \<Rightarrow> int \<Rightarrow> py_error + real" where
  "per_iter t iters =
     (case truediv t (of_int iters) of Inl x \<Rightarrow> Inl x | Inr q \<Rightarrow> Inr (q * 1000))"

text \<open>
  Lines 64-68, the estimate of the interpreter/JIT split: made only under
  \<^verbatim>\<open>if iterations > 1000:\<close>, with the threshold 1000 written into the code. The share
  \<^verbatim>\<open>jit_iters/iterations*100\<close> is a percentage; its divisor is above 1000 here.
\<close>

record regime =
  interp_iters :: int
  jit_iters :: int
  jit_percent :: real

definition regime_split :: "int \<Rightarrow> regime option" where
  "regime_split iterations =
     (if iterations > 1000 then
        Some \<lparr>interp_iters = 1000,
              jit_iters = iterations - 1000,
              jit_percent = of_int (iterations - 1000) / of_int iterations * 100\<rparr>
      else None)"

definition show_regime :: "int \<Rightarrow> world \<Rightarrow> world" where
  "show_regime iterations w =
     (case regime_split iterations of
        None \<Rightarrow> w
      | Some r \<Rightarrow>
          py_print [S ''  JIT native:  '', I (jit_iters r), S '' iterations ('',
                    F 1 (jit_percent r), S ''%)'']
            (py_print [S ''  Interpreter: '', I (interp_iters r), S '' iterations''] w))"

text \<open>
  Lines 55-68, the body under \<^verbatim>\<open>if avg:\<close> for one test case: \<^verbatim>\<open>None\<close> and \<^verbatim>\<open>0.0\<close> are
  false, and then nothing is appended to \<^verbatim>\<open>results\<close> and nothing is printed.
\<close>

definition report_case ::
  "string \<Rightarrow> int \<Rightarrow> real option \<Rightarrow> result_entry list \<times> world
     \<Rightarrow> py_error option \<times> result_entry list \<times> world" where
  "report_case name iterations avg rw =
     (case rw of (results, w) \<Rightarrow>
        (case avg of
           None \<Rightarrow> (None, results, w)
         | Some a \<Rightarrow>
             if a = 0 then (None, results, w)
             else
               (let results1 = results @ [(name, iterations, a)];
                    w1 = py_print [S ''  Average time: '', F 2 a, S ''ms''] w
                in case per_iter a iterations of
                     Inl x \<Rightarrow> (Some x, results1, w1)
                   | Inr time_per_iter \<Rightarrow>
                       (let w2 = py_print [S ''  Per iteration: '', F 4 time_per_iter, S (mu @ ''s'')] w1
                        in (None, results1, show_regime iterations w2)))))"

text \<open>The loop over the test cases, lines 51-68.\<close>

fun run_tests ::
  "env \<Rightarrow> test_case list \<Rightarrow> result_entry list \<times> world
     \<Rightarrow> py_error option \<times> result_entry list \<times> world" where
  "run_tests e [] (results, w) = (None, results, w)"
| "run_tests e ((test_file, name, iterations) # rest) (results, w) =
     (let w1 = py_print [S (''\<newline>'' @ name @ '':'')] w;
          w2 = py_print [S (replicate 80 CHR ''-'')] w1;
          (r, w3) = detailed_run_test e test_file name w2
      in case r of
           Inl x \<Rightarrow> (Some x, results, w3)
         | Inr avg \<Rightarrow>
             (case report_case name iterations avg (results, w3) of
                (Some x, results1, w4) \<Rightarrow> (Some x, results1, w4)
              | (None, results1, w4) \<Rightarrow> run_tests e rest (results1, w4)))"

text \<open>
  Lines 85-92: the branch \<^verbatim>\<open>if per_iter1 > per_iter2:\<close> computes \<^verbatim>\<open>improvement\<close> and reports
  a speedup; the \<^verbatim>\<open>else\<close> branch reports "No improvement detected".
\<close>

datatype verdict = Speedup real | No_improvement

definition speedup_verdict :: "real \<Rightarrow> real \<Rightarrow> py_error + verdict" where
  "speedup_verdict per_iter1 per_iter2 =
     (if per_iter1 > per_iter2 then
        (case truediv (per_iter1 - per_iter2) per_iter1 of
           Inl x \<Rightarrow> Inl x
         | Inr q \<Rightarrow> Inr (Speedup (q * 100)))
      else Inr No_improvement)"

text \<open>
  Lines 74-92: \<^verbatim>\<open>if len(results) >= 2:\<close> takes \<^verbatim>\<open>results[0]\<close> and \<^verbatim>\<open>results[1]\<close>; a shorter
  list skips the whole block.
\<close>

definition analysis :: "result_entry list \<Rightarrow> world \<Rightarrow> py_error option \<times> world" where
  "analysis results w =
     (case results of
        (name1, iters1, time1) # (name2, iters2, time2) # _ \<Rightarrow>
          (case per_iter time1 iters1 of
             Inl x \<Rightarrow> (Some x, w)
           | Inr per_iter1 \<Rightarrow>
               (case per_iter time2 iters2 of
                  Inl x \<Rightarrow> (Some x, w)
                | Inr per_iter2 \<Rightarrow>
                    (let w1 = py_print [S ''\<newline>10K iterations:  '', F 4 per_iter1,
                                        S (mu @ ''s per iteration'')] w;
                         w2 = py_print [S ''100K iterations: '', F 4 per_iter2,
                                        S (mu @ ''s per iteration'')] w1
                     in case speedup_verdict per_iter1 per_iter2 of
                          Inl x \<Rightarrow> (Some x, w2)
                        | Inr (Speedup improvement) \<Rightarrow>
                            (None,
                             py_print [S ''This shows JIT is working! Longer runs benefit more from native code.'']
                               (py_print [S ''\<newline>Speedup with more JIT usage: '', F 1 improvement, S ''%''] w2))
                        | Inr No_improvement \<Rightarrow>
                            (None,
                             py_print [S ''  2. Or the test is too simple to benefit from JIT'']
                               (py_print [S ''  1. JIT compilation overhead dominates for this workload'']
                                  (py_print [S ''\<newline>No improvement detected. This suggests:''] w2))))))
      | _ \<Rightarrow> (None, w))"

text \<open>The module body, lines 36-97, with the list of test cases as a parameter.\<close>

definition detailed_main_with :: "test_case list \<Rightarrow> env \<Rightarrow> world \<Rightarrow> py_error option \<times> world" where
  "detailed_main_with cases e w =
     (let w1 = py_print [S (replicate 80 CHR ''='')] w;
          w2 = py_print [S ''JIT Performance Benchmark - Detailed Analysis''] w1;
          w3 = py_print [S (replicate 80 CHR ''='')] w2;
          w4 = py_print [S ''\<newline>JIT Configuration:''] w3;
          w5 = py_print [S ''  Threshold: 1000 executions''] w4;
          w6 = py_print [S ''  After 1000 calls: function is compiled to native x86-64 code''] w5;
          w7 = py_print [S (replicate 80 CHR ''='')] w6
      in case run_tests e cases ([], w7) of
           (Some x, results, w8) \<Rightarrow> (Some x, w8)
         | (None, results, w8) \<Rightarrow>
             (let w9 = py_print [S (''\<newline>'' @ replicate 80 CHR ''='')] w8;
                  w10 = py_print [S ''Analysis:''] w9;
                  w11 = py_print [S (replicate 80 CHR ''='')] w10
              in case analysis results w11 of
                   (Some x, w12) \<Rightarrow> (Some x, w12)
                 | (None, w12) \<Rightarrow>
                     (let w13 = py_print [S (''\<newline>'' @ replicate 80 CHR ''='')] w12;
                          w14 = py_print [S ''Note: For accurate measurement, the 100K test should show lower''] w13;
                          w15 = py_print [S ''per-iteration time due to higher percentage of JIT-compiled code.''] w14
                      in (None, py_print [S (replicate 80 CHR ''='')] w15))))"


section \<open>Trial sets\<close>

text \<open>
  What the claims speak about, in terms of the environment: the trial set of a call is
  the list of the outcomes of the next \<open>n\<close> invocations, an outcome succeeded when its
  exit code is 0, and the samples of a trial set are the elapsed times of its successful
  outcomes, in order. \<open>first_failure\<close> counts the successful outcomes in front of the
  first failed one.
\<close>

definition succeeded :: "invocation \<Rightarrow> bool" where
  "succeeded r = (returncode r = 0)"

definition outcomes :: "env \<Rightarrow> string \<Rightarrow> world \<Rightarrow> nat \<Rightarrow> invocation list" where
  "outcomes e test_file w n = map (\<lambda>k. e test_file (calls w + k)) [0..<n]"

definition samples :: "invocation list \<Rightarrow> real list" where
  "samples rs = map elapsed_ms (filter succeeded rs)"

definition first_failure :: "invocation list \<Rightarrow> nat" where
  "first_failure rs = length (takeWhile succeeded rs)"








text \<open>
  Concrete environments for the examples: \<open>trial ms rc err\<close> is an invocation that took
  \<open>ms\<close> milliseconds and left with exit code \<open>rc\<close> and standard error \<open>err\<close>;
  \<open>scripted rs\<close> answers the \<open>k\<close>-th call with the \<open>k\<close>-th entry of \<open>rs\<close> and fails every
  later call; \<open>always_failing\<close> answers every call with exit code 1 and the standard error
  \<^verbatim>\<open>boom\<close>; \<open>fresh\<close> is the state before the first call and the first line.
\<close>

definition trial :: "real \<Rightarrow> int \<Rightarrow> string \<Rightarrow> invocation" where
  "trial ms rc err = \<lparr>t_start = 0, t_end = ms / 1000, returncode = rc, stderr = err\<rparr>"

definition scripted :: "invocation list \<Rightarrow> env" where
  "scripted rs test_file k = (if k < length rs then rs ! k else trial 0 1 [])"


definition fresh :: world where
  "fresh = \<lparr>calls = 0, out = []\<rparr>"

section \<open>The loops in terms of the trial set\<close>

lemma outcomes_Suc:
  "outcomes e f w (Suc n) = e f (calls w) # outcomes e f (w\<lparr>calls := Suc (calls w)\<rparr>) n"
  by (simp add: outcomes_def map_upt_Suc del: upt_Suc)

lemma outcomes_out [simp]: "outcomes e f (w\<lparr>out := x\<rparr>) n = outcomes e f w n"
  by (simp add: outcomes_def)

lemma outcomes_print [simp]: "outcomes e f (py_print l w) n = outcomes e f w n"
  by (simp add: outcomes_def py_print_def)

lemma length_outcomes [simp]: "length (outcomes e f w n) = n"
  by (simp add: outcomes_def)

lemma calls_print [simp]: "calls (py_print l w) = calls w"
  by (simp add: py_print_def)

lemma out_print [simp]: "out (py_print l w) = out w @ [l]"
  by (simp add: py_print_def)

lemma length_py_range [simp]: "length (py_range n) = nat n"
  by (simp add: py_range_def)

lemma calls_fresh [simp]: "calls fresh = 0"
  by (simp add: fresh_def)

lemma out_fresh [simp]: "out fresh = []"
  by (simp add: fresh_def)



lemma elapsed_trial [simp]: "elapsed_ms (trial ms rc err) = ms"
  by (simp add: elapsed_ms_def trial_def)

lemma succeeded_trial [simp]: "succeeded (trial ms rc err) = (rc = 0)"
  by (simp add: succeeded_def trial_def)

lemma outcomes_scripted_3:
  "outcomes (scripted [a, b, c]) f fresh 3 = [a, b, c]"
  by (simp add: outcomes_def scripted_def fresh_def eval_nat_numeral)

lemma outcomes_scripted_5:
  "outcomes (scripted [a, b, c, d, x]) f fresh 5 = [a, b, c, d, x]"
  by (simp add: outcomes_def scripted_def fresh_def eval_nat_numeral)


subsection \<open>run\_benchmark\<close>

lemma run_benchmark_loop_times:
  "fst (run_benchmark_loop e f is (ts, w)) = ts @ samples (outcomes e f w (length is))"
proof (induction "is" arbitrary: ts w)
  case Nil
  then show ?case by (simp add: samples_def outcomes_def)
next
  case (Cons i rest)
  show ?case
    by (simp add: subprocess_run_def Cons.IH outcomes_Suc samples_def succeeded_def Let_def)
qed




lemma fold_min_Min: "fold min ts (t::real) = Min (set (t # ts))"
  by (rule Min.set_eq_fold [symmetric])

lemma fold_max_Max: "fold max ts (t::real) = Max (set (t # ts))"
  by (rule Max.set_eq_fold [symmetric])

lemma run_benchmark_result:
  "fst (run_benchmark e f n w) =
     (let ts = samples (outcomes e f w (nat n)) in
      if ts = [] then (None, None, None)
      else (Some (sum_list ts / real (length ts)), Some (Min (set ts)), Some (Max (set ts))))"
proof -
  obtain ts w1 where r: "run_benchmark_loop e f (py_range n) ([], w) = (ts, w1)"
    by (cases "run_benchmark_loop e f (py_range n) ([], w)")
  have ts: "samples (outcomes e f w (nat n)) = ts"
    using run_benchmark_loop_times [of e f "py_range n" "[]" w] r by (simp add: py_range_def)
  show ?thesis
  proof (cases ts)
    case Nil
    then show ?thesis using r by (simp add: run_benchmark_def ts)
  next
    case (Cons t rest)
    then show ?thesis
      using r fold_min_Min [of rest t] fold_max_Max [of rest t]
      by (simp add: run_benchmark_def ts Let_def)
  qed
qed







subsection \<open>The two run\_test functions\<close>

lemma compare_jit_loop_result:
  "fst (compare_jit_loop e f is (ts, w)) =
     (if list_all succeeded (outcomes e f w (length is))
      then Inr (ts @ map elapsed_ms (outcomes e f w (length is))) else Inl None)"
proof (induction "is" arbitrary: ts w)
  case Nil
  then show ?case by (simp add: outcomes_def)
next
  case (Cons i rest)
  show ?case
    by (simp add: subprocess_run_def Cons.IH outcomes_Suc succeeded_def Let_def)
qed


lemma detailed_loop_result:
  "fst (detailed_loop e f is (ts, w)) =
     (if list_all succeeded (outcomes e f w (length is))
      then Inr (ts @ map elapsed_ms (outcomes e f w (length is))) else Inl None)"
proof (induction "is" arbitrary: ts w)
  case Nil
  then show ?case by (simp add: outcomes_def)
next
  case (Cons i rest)
  show ?case
    by (simp add: subprocess_run_def Cons.IH outcomes_Suc succeeded_def Let_def)
qed

lemma detailed_loop_calls:
  "calls (snd (detailed_loop e f is (ts, w))) =
     calls w + min (length is) (Suc (first_failure (outcomes e f w (length is))))"
proof (induction "is" arbitrary: ts w)
  case Nil
  then show ?case by simp
next
  case (Cons i rest)
  show ?case
    by (simp add: subprocess_run_def Cons.IH outcomes_Suc succeeded_def first_failure_def Let_def)
qed

lemma compare_jit_run_test_unfold:
  assumes "compare_jit_loop e f (py_range 5)
             ([], py_print [S (replicate 60 CHR ''='')]
                    (py_print [S d] (py_print [S (''\<newline>'' @ replicate 60 CHR ''='')] w))) = (r, w4)"
  shows "compare_jit_run_test e f d w =
      (case r of Inl v \<Rightarrow> (v, w4)
       | Inr times_l \<Rightarrow>
           (case times_l of [] \<Rightarrow> (None, w4)
            | t # ts \<Rightarrow>
                (let avg = sum_list times_l / real (length times_l);
                     w5 = py_print [S ''\<newline>  Average: '', F 2 avg, S ''ms''] w4;
                     w6 = py_print [S ''  Min:     '', F 2 (fold min ts t), S ''ms''] w5;
                     w7 = py_print [S ''  Max:     '', F 2 (fold max ts t), S ''ms''] w6
                 in (Some avg, w7))))"
  using assms by (simp add: compare_jit_run_test_def Let_def)

lemma compare_jit_run_test_result:
  "fst (compare_jit_run_test e f d w) =
     (if list_all succeeded (outcomes e f w 5)
      then Some (sum_list (map elapsed_ms (outcomes e f w 5)) / 5) else None)"
proof -
  define w3 where "w3 = py_print [S (replicate 60 CHR ''='')]
     (py_print [S d] (py_print [S (''\<newline>'' @ replicate 60 CHR ''='')] w))"
  obtain r w4 where r: "compare_jit_loop e f (py_range 5) ([], w3) = (r, w4)"
    by (cases "compare_jit_loop e f (py_range 5) ([], w3)")
  have os: "outcomes e f w3 5 = outcomes e f w 5"
    by (simp add: w3_def)
  have fr: "r = (if list_all succeeded (outcomes e f w 5)
      then Inr (map elapsed_ms (outcomes e f w 5)) else Inl None)"
    using compare_jit_loop_result [of e f "py_range 5" "[]" w3] r os by simp
  note run = compare_jit_run_test_unfold [OF r [unfolded w3_def]]
  show ?thesis
  proof (cases "list_all succeeded (outcomes e f w 5)")
    case False
    then show ?thesis by (simp add: run fr)
  next
    case True
    have "length (map elapsed_ms (outcomes e f w 5)) = 5" by simp
    then obtain t ts where c: "map elapsed_ms (outcomes e f w 5) = t # ts"
      by (cases "map elapsed_ms (outcomes e f w 5)") simp_all
    have "real (length (t # ts)) = 5"
      using c [symmetric] by simp
    then show ?thesis
      using True by (simp add: run fr c Let_def)
  qed
qed


lemma detailed_run_test_result:
  "fst (detailed_run_test e f d w) =
     (if list_all succeeded (outcomes e f w 5)
      then Inr (Some (sum_list (map elapsed_ms (outcomes e f w 5)) / 5)) else Inr None)"
proof -
  obtain r w4 where r: "detailed_loop e f (py_range 5) ([], w) = (r, w4)"
    by (cases "detailed_loop e f (py_range 5) ([], w)")
  have fr: "r = (if list_all succeeded (outcomes e f w 5)
      then Inr (map elapsed_ms (outcomes e f w 5)) else Inl None)"
    using detailed_loop_result [of e f "py_range 5" "[]" w] r by simp
  show ?thesis
    using r by (simp add: detailed_run_test_def fr truediv_def)
qed

lemma detailed_run_test_calls:
  "calls (snd (detailed_run_test e f d w)) =
     calls w + min 5 (Suc (first_failure (outcomes e f w 5)))"
proof -
  obtain r w4 where r: "detailed_loop e f (py_range 5) ([], w) = (r, w4)"
    by (cases "detailed_loop e f (py_range 5) ([], w)")
  have c: "calls w4 = calls w + min 5 (Suc (first_failure (outcomes e f w 5)))"
    using detailed_loop_calls [of e f "py_range 5" "[]" w] r by simp
  show ?thesis
    using r c
    by (simp add: detailed_run_test_def Let_def split: sum.splits list.splits)
qed

subsection \<open>The failure path of detailed\_benchmark.py\<close>

lemma first_failure_less:
  "first_failure rs < length rs \<longleftrightarrow> \<not> list_all succeeded rs"
  by (induction rs) (simp_all add: first_failure_def)

lemma detailed_loop_snd:
  "snd (detailed_loop e f is (ts, w)) =
     (if first_failure (outcomes e f w (length is)) < length is
      then py_print [S ''ERROR: '',
                     S (take 100 (stderr (outcomes e f w (length is) !
                                            first_failure (outcomes e f w (length is)))))]
             (w\<lparr>calls := calls w + Suc (first_failure (outcomes e f w (length is)))\<rparr>)
      else w\<lparr>calls := calls w + length is\<rparr>)"
proof (induction "is" arbitrary: ts w)
  case Nil
  then show ?case by simp
next
  case (Cons i rest)
  let ?r = "e f (calls w)"
  let ?w1 = "w\<lparr>calls := Suc (calls w)\<rparr>"
  have os: "outcomes e f w (length (i # rest)) = ?r # outcomes e f ?w1 (length rest)"
    by (simp add: outcomes_Suc)
  show ?case
  proof (cases "returncode ?r = 0")
    case True
    have step: "detailed_loop e f (i # rest) (ts, w) =
        detailed_loop e f rest (ts @ [elapsed_ms ?r], ?w1)"
      using True by (simp add: subprocess_run_def Let_def)
    have ff: "first_failure (?r # outcomes e f ?w1 (length rest)) =
        Suc (first_failure (outcomes e f ?w1 (length rest)))"
      using True by (simp add: first_failure_def succeeded_def)
    show ?thesis
      unfolding step os ff Cons.IH by simp
  next
    case False
    have step: "detailed_loop e f (i # rest) (ts, w) =
        (Inl None, py_print [S ''ERROR: '', S (take 100 (stderr ?r))] ?w1)"
      using False by (simp add: subprocess_run_def Let_def)
    have ff: "first_failure (?r # outcomes e f ?w1 (length rest)) = 0"
      using False by (simp add: first_failure_def succeeded_def)
    show ?thesis
      unfolding step os ff by simp
  qed
qed

lemma snd_detailed_run_test:
  "snd (detailed_run_test e f name w) = snd (detailed_loop e f (py_range 5) ([], w))"
  by (simp add: detailed_run_test_def Let_def split: prod.splits sum.splits)

lemma detailed_run_test_failed:
  assumes "\<not> list_all succeeded (outcomes e f w 5)"
  shows "detailed_run_test e f name w =
     (Inr None,
      py_print [S ''ERROR: '',
                S (take 100 (stderr (outcomes e f w 5 ! first_failure (outcomes e f w 5))))]
        (w\<lparr>calls := calls w + Suc (first_failure (outcomes e f w 5))\<rparr>))"
proof -
  have a: "fst (detailed_run_test e f name w) = Inr None"
    using assms by (simp add: detailed_run_test_result)
  have "first_failure (outcomes e f w 5) < 5"
    using assms first_failure_less [of "outcomes e f w 5"] by simp
  then have b: "snd (detailed_run_test e f name w) =
      py_print [S ''ERROR: '',
                S (take 100 (stderr (outcomes e f w 5 ! first_failure (outcomes e f w 5))))]
        (w\<lparr>calls := calls w + Suc (first_failure (outcomes e f w 5))\<rparr>)"
    using detailed_loop_snd [of e f "py_range 5" "[]" w]
    by (simp add: snd_detailed_run_test)
  show ?thesis
    using a b by (simp add: prod_eq_iff)
qed

lemma run_tests_failed_case:
  assumes "\<not> list_all succeeded (outcomes e f w 5)"
  shows "run_tests e ((f, name, iterations) # rest) (results, w) =
     run_tests e rest
       (results,
        w\<lparr>calls := calls w + Suc (first_failure (outcomes e f w 5)),
          out := out w @
            [[S (''\<newline>'' @ name @ '':'')],
             [S (replicate 80 CHR ''-'')],
             [S ''ERROR: '',
              S (take 100 (stderr (outcomes e f w 5 ! first_failure (outcomes e f w 5))))]]\<rparr>)"
proof -
  let ?w2 = "py_print [S (replicate 80 CHR ''-'')] (py_print [S (''\<newline>'' @ name @ '':'')] w)"
  have os: "outcomes e f ?w2 5 = outcomes e f w 5" by simp
  have "\<not> list_all succeeded (outcomes e f ?w2 5)"
    using assms by simp
  note d = detailed_run_test_failed [OF this, of name, unfolded os]
  show ?thesis
    using d by (simp add: report_case_def py_print_def Let_def)
qed


subsection \<open>detailed\_benchmark.py raises no exception on its test cases\<close>

lemma report_case_cases:
  "report_case name iterations avg (results, w) =
     (if avg = None \<or> avg = Some 0 then (None, results, w)
      else if iterations = 0
        then (Some ZeroDivisionError, results @ [(name, iterations, the avg)],
              py_print [S ''  Average time: '', F 2 (the avg), S ''ms''] w)
        else (None, results @ [(name, iterations, the avg)],
              show_regime iterations
                (py_print [S ''  Per iteration: '', F 4 (the avg / real_of_int iterations * 1000),
                           S (mu @ ''s'')]
                   (py_print [S ''  Average time: '', F 2 (the avg), S ''ms''] w))))"
  by (cases avg) (simp_all add: report_case_def per_iter_def truediv_def Let_def)


lemma detailed_run_test_Inr:
  "\<exists>avg w1. detailed_run_test e f name w = (Inr avg, w1)"
proof -
  obtain r w1 where d: "detailed_run_test e f name w = (r, w1)"
    by (cases "detailed_run_test e f name w")
  have "\<exists>avg. r = Inr avg"
    using detailed_run_test_result [of e f name w] d by (simp split: if_splits)
  then show ?thesis using d by blast
qed




subsection \<open>Test cases that reach the comparison\<close>

lemma outcomes_calls_cong:
  "calls w = calls w' \<Longrightarrow> outcomes e f w n = outcomes e f w' n"
  by (simp add: outcomes_def)

lemma calls_show_regime [simp]: "calls (show_regime iterations w) = calls w"
  by (simp add: show_regime_def split: option.splits)

lemma report_case_calls_length:
  assumes "report_case name iterations avg (results, w) = (x, results1, w1)"
  shows "calls w1 = calls w \<and> length results1 \<le> Suc (length results)"
  using assms by (auto simp add: report_case_cases split: if_splits)

lemma analysis_short:
  "length results < 2 \<Longrightarrow> analysis results w = (None, w)"
proof (cases results)
  case Nil
  then show ?thesis by (simp add: analysis_def)
next
  case (Cons r1 rest)
  assume "length results < 2"
  then have "rest = []" using Cons by simp
  then show ?thesis using Cons by (simp add: analysis_def split: prod.splits)
qed

lemma run_tests_one_failed:
  assumes "\<not> list_all succeeded (outcomes e f w 5)"
  shows "\<exists>w1. run_tests e [(f, name, iterations)] (results, w) = (None, results, w1)"
  using run_tests_failed_case [OF assms, of name iterations "[]" results] by simp

lemma run_tests_one_length:
  "\<exists>x results1 w1. run_tests e [(f, name, iterations)] (results, w) = (x, results1, w1)
     \<and> length results1 \<le> Suc (length results)"
proof -
  let ?w2 = "py_print [S (replicate 80 CHR ''-'')] (py_print [S (''\<newline>'' @ name @ '':'')] w)"
  obtain avg w3 where d: "detailed_run_test e f name ?w2 = (Inr avg, w3)"
    using detailed_run_test_Inr by blast
  obtain x4 results4 w4 where rc: "report_case name iterations avg (results, w3) = (x4, results4, w4)"
    by (cases "report_case name iterations avg (results, w3)")
  have "length results4 \<le> Suc (length results)"
    using report_case_calls_length [OF rc] by simp
  then show ?thesis
    using d rc by (cases x4) (simp_all add: Let_def)
qed

lemma run_tests_two_failed:
  assumes "\<not> list_all succeeded (outcomes e f1 w 5)
         \<or> \<not> list_all succeeded (outcomes e f2 (snd (detailed_run_test e f1 n1 w)) 5)"
  shows "\<exists>x results1 w1. run_tests e [(f1, n1, i1), (f2, n2, i2)] ([], w) = (x, results1, w1)
     \<and> length results1 < 2"
proof (cases "list_all succeeded (outcomes e f1 w 5)")
  case False
  define w' where "w' = w\<lparr>calls := calls w + Suc (first_failure (outcomes e f1 w 5)),
          out := out w @
            [[S (''\<newline>'' @ n1 @ '':'')],
             [S (replicate 80 CHR ''-'')],
             [S ''ERROR: '',
              S (take 100 (stderr (outcomes e f1 w 5 ! first_failure (outcomes e f1 w 5))))]]\<rparr>"
  have step: "run_tests e [(f1, n1, i1), (f2, n2, i2)] ([], w) = run_tests e [(f2, n2, i2)] ([], w')"
    unfolding w'_def by (rule run_tests_failed_case [OF False])
  obtain x results1 w1 where "run_tests e [(f2, n2, i2)] ([], w') = (x, results1, w1)"
    and "length results1 \<le> Suc (length ([] :: result_entry list))"
    using run_tests_one_length [of e f2 n2 i2 "[]" w'] by blast
  then have "run_tests e [(f1, n1, i1), (f2, n2, i2)] ([], w) = (x, results1, w1) \<and> length results1 < 2"
    by (simp only: step) simp
  then show ?thesis by blast
next
  case True
  then have f2: "\<not> list_all succeeded (outcomes e f2 (snd (detailed_run_test e f1 n1 w)) 5)"
    using assms by blast
  let ?w2 = "py_print [S (replicate 80 CHR ''-'')] (py_print [S (''\<newline>'' @ n1 @ '':'')] w)"
  obtain avg w3 where d: "detailed_run_test e f1 n1 ?w2 = (Inr avg, w3)"
    using detailed_run_test_Inr by blast
  have c3: "calls w3 = calls (snd (detailed_run_test e f1 n1 w))"
    using detailed_run_test_calls [of e f1 n1 ?w2] detailed_run_test_calls [of e f1 n1 w] d
    by simp
  obtain x4 results4 w4 where rc: "report_case n1 i1 avg ([], w3) = (x4, results4, w4)"
    by (cases "report_case n1 i1 avg ([], w3)")
  have c4: "calls w4 = calls w3" and l4: "length results4 \<le> 1"
    using report_case_calls_length [OF rc] by simp_all
  show ?thesis
  proof (cases x4)
    case (Some err)
    then show ?thesis
      using d rc l4 by (simp add: Let_def)
  next
    case None
    have "\<not> list_all succeeded (outcomes e f2 w4 5)"
      using f2 outcomes_calls_cong [of w4 "snd (detailed_run_test e f1 n1 w)" e f2 5] c3 c4
      by simp
    then obtain w5 where "run_tests e [(f2, n2, i2)] (results4, w4) = (None, results4, w5)"
      using run_tests_one_failed by blast
    then show ?thesis
      using d rc l4 None by (simp add: Let_def)
  qed
qed

lemma run_tests_zero_units:
  "fst (run_tests (\<lambda>f k. trial 55 0 []) ((f, name, 0) # rest) (results, w)) =
     Some ZeroDivisionError"
proof -
  let ?e = "\<lambda>(f :: string) (k :: nat). trial 55 0 []"
  let ?w2 = "py_print [S (replicate 80 CHR ''-'')] (py_print [S (''\<newline>'' @ name @ '':'')] w)"
  have "fst (detailed_run_test ?e f name ?w2) = Inr (Some 55)"
    by (simp add: detailed_run_test_result outcomes_def eval_nat_numeral)
  then obtain w3 where d: "detailed_run_test ?e f name ?w2 = (Inr (Some 55), w3)"
    by (cases "detailed_run_test ?e f name ?w2") simp
  show ?thesis
    using d by (simp add: report_case_cases Let_def)
qed

subsection \<open>Runs that take no time\<close>

lemma samples_all_zero:
  "list_all (\<lambda>r. succeeded r \<and> t_end r = t_start r) rs \<Longrightarrow>
     samples rs = replicate (length rs) 0 \<and> map elapsed_ms rs = replicate (length rs) 0
     \<and> list_all succeeded rs"
  by (induction rs) (simp_all add: samples_def elapsed_ms_def)

section \<open>The claims\<close>




text \<open>
  C2. For every trial set with no successful outcome the aggregation returns no Summary:
  \<^verbatim>\<open>run_benchmark\<close> returns \<^verbatim>\<open>(None, None, None)\<close> and both \<^verbatim>\<open>run_test\<close> functions return
  \<^verbatim>\<open>None\<close>, never a number.
\<close>

theorem no_summary_without_success:
  "(samples (outcomes e f w (nat n)) = [] \<longrightarrow>
      fst (run_benchmark e f n w) = (None, None, None))
   \<and> (samples (outcomes e f w 5) = [] \<longrightarrow>
      fst (compare_jit_run_test e f d w) = None \<and> fst (detailed_run_test e f d w) = Inr None)"
proof -
  have "\<not> list_all succeeded (outcomes e f w 5)" if "samples (outcomes e f w 5) = []"
  proof
    assume a: "list_all succeeded (outcomes e f w 5)"
    then have "filter succeeded (outcomes e f w 5) = outcomes e f w 5"
      by (simp add: list_all_iff)
    then have "length (samples (outcomes e f w 5)) = 5"
      by (simp add: samples_def)
    with that show False by simp
  qed
  then show ?thesis
    by (simp add: run_benchmark_result compare_jit_run_test_result detailed_run_test_result)
qed

theorem no_summary_without_success_witness:
  "fst (run_benchmark (scripted [trial 7 1 ''a'', trial 8 2 ''b'', trial 9 1 ''c'']) ''t'' 3 fresh) =
     (None, None, None)
   \<and> fst (compare_jit_run_test (scripted [trial 7 1 ''a'', trial 8 2 ''b'', trial 9 1 ''c''])
           ''t'' ''d'' fresh) = None
   \<and> fst (detailed_run_test (scripted [trial 7 1 ''a'', trial 8 2 ''b'', trial 9 1 ''c''])
           ''t'' ''d'' fresh) = Inr None"
proof -
  have a: "samples (outcomes (scripted [trial 7 1 ''a'', trial 8 2 ''b'', trial 9 1 ''c''])
                       ''t'' fresh (nat 3)) = []"
    by (simp add: outcomes_scripted_3 samples_def)
  have b: "samples (outcomes (scripted [trial 7 1 ''a'', trial 8 2 ''b'', trial 9 1 ''c''])
                       ''t'' fresh 5) = []"
    by (simp add: outcomes_def scripted_def fresh_def eval_nat_numeral samples_def)
  show ?thesis
    using no_summary_without_success
      [of "scripted [trial 7 1 ''a'', trial 8 2 ''b'', trial 9 1 ''c'']" "''t''" fresh 3 "''d''"]
      a b
    by simp
qed

























text \<open>
  C9 (as amended). The comparison is made only when \<^verbatim>\<open>results\<close> holds at least two
  entries: with fewer, the block of lines 74-92 computes nothing, prints nothing and
  raises nothing. A test case with a failed trial (so with no average, in particular one
  with no successful sample) adds no entry, so that with two test cases of which one has
  a failed trial no comparison is made, and no value stands in for the missing average.
\<close>

theorem no_comparison_without_two_averages:
  "(length results < 2 \<longrightarrow> analysis results w = (None, w))
   \<and> (\<not> list_all succeeded (outcomes e f1 w 5)
        \<or> \<not> list_all succeeded (outcomes e f2 (snd (detailed_run_test e f1 n1 w)) 5) \<longrightarrow>
      (\<exists>x results1 w1.
         run_tests e [(f1, n1, i1), (f2, n2, i2)] ([], w) = (x, results1, w1)
         \<and> length results1 < 2
         \<and> analysis results1 w2 = (None, w2)))"
proof -
  have "\<exists>x results1 w1.
         run_tests e [(f1, n1, i1), (f2, n2, i2)] ([], w) = (x, results1, w1)
         \<and> length results1 < 2
         \<and> analysis results1 w2 = (None, w2)"
    if h: "\<not> list_all succeeded (outcomes e f1 w 5)
        \<or> \<not> list_all succeeded (outcomes e f2 (snd (detailed_run_test e f1 n1 w)) 5)"
  proof -
    obtain x results1 w1
      where r: "run_tests e [(f1, n1, i1), (f2, n2, i2)] ([], w) = (x, results1, w1)"
        and l: "length results1 < 2"
      using run_tests_two_failed [OF h] by blast
    show ?thesis
      using r l analysis_short [OF l] by blast
  qed
  then show ?thesis
    using analysis_short by blast
qed


theorem no_comparison_without_two_averages_witness:
  "analysis [(''10K iterations'', 10000, 55)] fresh = (None, fresh)
   \<and> (\<exists>x results1 w1.
         run_tests (scripted [trial 55 0 [], trial 55 0 [], trial 55 0 [], trial 55 0 [], trial 55 0 []])
           tests ([], fresh) = (x, results1, w1)
         \<and> length results1 < 2
         \<and> analysis results1 fresh = (None, fresh))"
proof -
  let ?e = "scripted [trial 55 0 [], trial 55 0 [], trial 55 0 [], trial 55 0 [], trial 55 0 []]"
  let ?f1 = "''tests/programs/benchmark_arithmetic.pyh''"
  let ?f2 = "''tests/programs/benchmark_long.pyh''"
  have c: "calls (snd (detailed_run_test ?e ?f1 ''10K iterations'' fresh)) = 5"
    by (simp add: detailed_run_test_calls outcomes_scripted_5 first_failure_def)
  have h2: "\<not> list_all succeeded (outcomes ?e ?f1 fresh 5)
        \<or> \<not> list_all succeeded
             (outcomes ?e ?f2 (snd (detailed_run_test ?e ?f1 ''10K iterations'' fresh)) 5)"
    by (simp add: outcomes_def c scripted_def eval_nat_numeral)
  have h1: "length [(''10K iterations'', 10000 :: int, 55 :: real)] < 2"
    by simp
  show ?thesis
    using no_comparison_without_two_averages
      [of "[(''10K iterations'', 10000, 55)]" fresh ?e ?f1 ?f2 "''10K iterations''"
          10000 "''100K iterations''" 100000 fresh]
      h1 h2
    by (simp only: tests_def)
qed

text \<open>
  The claim as stated fails for a side with zero total units: the code has no check of
  the unit counts, and the division by the count raises \<^verbatim>\<open>ZeroDivisionError\<close>, in the
  comparison block and, before that, in line 60 of the loop over the test cases.
\<close>

theorem zero_units_raise_instead:
  "analysis [(''zero'', 0, 55), (''100K iterations'', 100000, 450)] fresh =
     (Some ZeroDivisionError, fresh)
   \<and> fst (detailed_main_with
            [(''a.pyh'', ''zero'', 0), (''b.pyh'', ''100K iterations'', 100000)]
            (\<lambda>f k. trial 55 0 []) fresh) = Some ZeroDivisionError"
proof -
  let ?e = "\<lambda>(f :: string) (k :: nat). trial 55 0 []"
  let ?cases = "[(''a.pyh'', ''zero'', 0 :: int), (''b.pyh'', ''100K iterations'', 100000)]"
  let ?w7 = "py_print [S (replicate 80 CHR ''='')]
              (py_print [S ''  After 1000 calls: function is compiled to native x86-64 code'']
                (py_print [S ''  Threshold: 1000 executions'']
                  (py_print [S ''\<newline>JIT Configuration:'']
                    (py_print [S (replicate 80 CHR ''='')]
                      (py_print [S ''JIT Performance Benchmark - Detailed Analysis'']
                        (py_print [S (replicate 80 CHR ''='')] fresh))))))"
  obtain x results w8 where rt: "run_tests ?e ?cases ([], ?w7) = (x, results, w8)"
    by (cases "run_tests ?e ?cases ([], ?w7)")
  have "x = Some ZeroDivisionError"
    using run_tests_zero_units [of "''a.pyh''" "''zero''" "[(''b.pyh'', ''100K iterations'', 100000)]" "[]" ?w7] rt
    by simp
  then have "fst (detailed_main_with ?cases ?e fresh) = Some ZeroDivisionError"
    using rt by (simp add: detailed_main_with_def Let_def)
  moreover have "analysis [(''zero'', 0, 55), (''100K iterations'', 100000, 450)] fresh =
     (Some ZeroDivisionError, fresh)"
    by (simp add: analysis_def per_iter_def truediv_def)
  ultimately show ?thesis by blast
qed


text \<open>
  C10. A test case whose trials all succeed with an elapsed time of exactly 0.0 ms has the
  average 0.0 (\<^verbatim>\<open>run_benchmark\<close> returns \<^verbatim>\<open>(0.0, 0.0, 0.0)\<close>, \<^verbatim>\<open>run_test\<close> returns \<^verbatim>\<open>0.0\<close>), and
  the callers' \<^verbatim>\<open>if avg:\<close> treats it as it treats \<^verbatim>\<open>None\<close>: no results lines are printed and
  no entry is appended to \<^verbatim>\<open>results\<close>, so that it takes no part in the comparison.
\<close>

theorem zero_average_is_treated_as_no_data:
  "(0 < n \<and> list_all (\<lambda>r. succeeded r \<and> t_end r = t_start r) (outcomes e f w (nat n)) \<longrightarrow>
      fst (run_benchmark e f n w) = (Some 0, Some 0, Some 0))
   \<and> (list_all (\<lambda>r. succeeded r \<and> t_end r = t_start r) (outcomes e f w 5) \<longrightarrow>
      fst (detailed_run_test e f name w) = Inr (Some 0))
   \<and> show_results (Some 0, Some 0, Some 0) w1 = (None, w1)
   \<and> show_results (None, None, None) w1 = (None, w1)
   \<and> report_case name iterations (Some 0) (results, w1) = (None, results, w1)
   \<and> report_case name iterations None (results, w1) = (None, results, w1)"
proof -
  have a: "fst (run_benchmark e f n w) = (Some 0, Some 0, Some 0)"
    if "0 < n" and z: "list_all (\<lambda>r. succeeded r \<and> t_end r = t_start r) (outcomes e f w (nat n))"
  proof -
    have s: "samples (outcomes e f w (nat n)) = replicate (nat n) 0"
      using samples_all_zero [OF z] by simp
    have ne: "replicate (nat n) (0::real) \<noteq> []"
      using \<open>0 < n\<close> by simp
    have "set (replicate (nat n) (0::real)) = {0}"
      using \<open>0 < n\<close> by simp
    moreover have "sum_list (replicate (nat n) (0::real)) = 0"
      by (simp add: sum_list_replicate)
    ultimately show ?thesis
      using ne by (simp add: run_benchmark_result s Let_def)
  qed
  have b: "fst (detailed_run_test e f name w) = Inr (Some 0)"
    if z: "list_all (\<lambda>r. succeeded r \<and> t_end r = t_start r) (outcomes e f w 5)"
    using samples_all_zero [OF z] by (simp add: detailed_run_test_result sum_list_replicate)
  show ?thesis
    using a b by (simp add: show_results_def report_case_def)
qed

theorem zero_average_is_treated_as_no_data_witness:
  "fst (run_benchmark (\<lambda>f k. trial 0 0 []) ''t'' 3 fresh) = (Some 0, Some 0, Some 0)
   \<and> fst (detailed_run_test (\<lambda>f k. trial 0 0 []) ''t'' ''10K iterations'' fresh) = Inr (Some 0)
   \<and> show_results (Some 0, Some 0, Some 0) fresh = (None, fresh)
   \<and> show_results (None, None, None) fresh = (None, fresh)
   \<and> report_case ''10K iterations'' 10000 (Some 0) ([], fresh) = (None, [], fresh)
   \<and> report_case ''10K iterations'' 10000 None ([], fresh) = (None, [], fresh)"
proof -
  have h: "list_all (\<lambda>r. succeeded r \<and> t_end r = t_start r)
             (outcomes (\<lambda>f k. trial 0 0 []) ''t'' fresh m)" for m
    by (simp add: outcomes_def list_all_iff trial_def succeeded_def)
  show ?thesis
    using zero_average_is_treated_as_no_data
      [of 3 "\<lambda>f k. trial 0 0 []" "''t''" fresh "''10K iterations''" fresh 10000 "[]"]
      h [of "nat 3"] h [of 5]
    by simp
qed

end
